theory Spec2Isabelle
  imports Complex_Main
begin

section \<open>Python values, errors and logging\<close>

text \<open>
  The values that can sit in a bucket of the data object or in an entity's state.
  Integers are Python's unbounded ints. A float is a finite value, an infinity
  (\<open>True\<close> for the positive one) or NaN; a finite float is given by the rational
  number it stands for. A datetime is a wall-clock reading (in minutes) together
  with its \<open>tzinfo\<close>: \<open>None\<close> for a naive datetime, the UTC offset in minutes
  for an aware one.
\<close>

datatype pyfloat = Finite rat | Infinite bool | NaN

datatype datetime = Datetime (wall_clock: int) (tzinfo: "int option")

datatype pyval =
    VNone
  | VBool bool
  | VInt int
  | VFloat pyfloat
  | VStr string
  | VDatetime datetime
  | VList "pyval list"
  | VDict "(string \<times> pyval) list"

text \<open>
  The exceptions that occur. \<open>IndexError\<close> carries its message, which the source
  spells out at every raise.
\<close>

datatype py_error =
    AttributeError
  | IndexError string
  | KeyError
  | TypeError
  | ValueError
  | OverflowError

text \<open>What was handed to \<open>_LOGGER\<close>, with the \<open>%s\<close> arguments filled in.\<close>

datatype log_entry = LogError string | LogDebug string

text \<open>
  What the module imports from the host runtime and from Python itself:
  the two unit constants \<open>UnitOfPower.WATT\<close> and \<open>UnitOfEnergy.WATT_HOUR\<close>,
  \<open>dt_util.as_local\<close>, and \<open>to_double\<close>, the rounding of an exact result of
  float arithmetic to the nearest double (an infinity when it overflows).
\<close>

record env =
  WATT :: string
  WATT_HOUR :: string
  as_local :: "datetime \<Rightarrow> datetime"
  to_double :: "rat \<Rightarrow> pyfloat"

section \<open>The data object\<close>

text \<open>
  The data object belongs to the controller, which is not part of this repository.
  Each bucket is either Python's \<open>None\<close> or a dictionary from strings to values.
\<close>

type_synonym bucket = "string \<rightharpoonup> pyval"

record easee_data =
  product_id :: string
  config :: "bucket option"
  state :: "bucket option"
  circuit :: "bucket option"
  site :: "bucket option"
  cost_day :: "bucket option"
  cost_month :: "bucket option"
  cost_year :: "bucket option"
  schedule :: "bucket option"
  weekly_schedule :: "bucket option"

text \<open>\<open>b[k]\<close>: subscripting \<open>None\<close> is a TypeError, a missing key a KeyError.\<close>

definition getitem :: "bucket option \<Rightarrow> string \<Rightarrow> py_error + pyval" where
  "getitem b k =
     (case b of
        None \<Rightarrow> Inl TypeError
      | Some m \<Rightarrow> (case m k of None \<Rightarrow> Inl KeyError | Some v \<Rightarrow> Inr v))"

text \<open>\<open>b[k] = v\<close>: the bucket after the store, or the TypeError of storing into \<open>None\<close>.\<close>

definition setitem :: "bucket option \<Rightarrow> string \<Rightarrow> pyval \<Rightarrow> py_error + bucket option" where
  "setitem b k v =
     (case b of
        None \<Rightarrow> Inl TypeError
      | Some m \<Rightarrow> Inr (Some (m(k \<mapsto> v))))"

section \<open>Splitting a key\<close>

text \<open>
  \<open>s.split(sep)\<close> for a one-character separator: the pieces between the separators,
  empty pieces included, so the empty string splits into one empty piece. The result is
  never the empty list (\<open>str_split_not_Nil\<close> below), so \<open>hd\<close> and \<open>tl\<close> of the
  recursive result are its first piece and the rest.
\<close>

fun str_split :: "char \<Rightarrow> string \<Rightarrow> string list" where
  "str_split sep [] = [[]]"
| "str_split sep (c # cs) =
     (if c = sep then [] # str_split sep cs
      else (let r = str_split sep cs in (c # hd r) # tl r))"

section \<open>Key-path dispatch\<close>

text \<open>
  \<open>isinstance(value, datetime)\<close> followed by \<open>dt_util.as_local(value)\<close>.
\<close>

definition localize :: "env \<Rightarrow> pyval \<Rightarrow> pyval" where
  "localize E v = (case v of VDatetime d \<Rightarrow> VDatetime (as_local E d) | _ \<Rightarrow> v)"

text \<open>
  The \<open>if\<close>/\<open>elif\<close> chain of \<open>get_value_from_key\<close>, after the key has been
  unpacked: what was logged, and the value found or the exception raised.
  \<open>value\<close> starts as \<open>None\<close> and stays so when a schedule bucket is \<open>None\<close>.
\<close>

definition get_dispatch ::
  "easee_data \<Rightarrow> string \<Rightarrow> string \<Rightarrow> string \<Rightarrow> log_entry list \<times> (py_error + pyval)" where
  "get_dispatch d key first second =
     (if first = ''config'' then ([], getitem (config d) second)
      else if first = ''state'' then ([], getitem (state d) second)
      else if first = ''circuit'' then ([], getitem (circuit d) second)
      else if first = ''site'' then ([], getitem (site d) second)
      else if first = ''cost_day'' then ([], getitem (cost_day d) second)
      else if first = ''cost_month'' then ([], getitem (cost_month d) second)
      else if first = ''cost_year'' then ([], getitem (cost_year d) second)
      else if first = ''schedule'' then
        ([], if schedule d \<noteq> None then getitem (schedule d) second else Inr VNone)
      else if first = ''weekly_schedule'' then
        ([], if weekly_schedule d \<noteq> None then getitem (weekly_schedule d) second
             else Inr VNone)
      else ([LogError (''Unknown first part of key: '' @ key)],
            Inl (IndexError ''Unknown first part of key'')))"

text \<open>
  \<open>ChargerEntity.get_value_from_key\<close>. Unpacking anything but two pieces is a
  ValueError. The whole body is inside \<open>try\<close>; only a KeyError is caught, and turned
  into the empty string.
\<close>

definition get_value_from_key ::
  "env \<Rightarrow> easee_data \<Rightarrow> string \<Rightarrow> log_entry list \<times> (py_error + pyval)" where
  "get_value_from_key E d key =
     (case str_split (CHR ''.'') key of
        [first, second] \<Rightarrow>
          (case get_dispatch d key first second of
             (lg, Inr v) \<Rightarrow> (lg, Inr (localize E v))
           | (lg, Inl e) \<Rightarrow> (lg, if e = KeyError then Inr (VStr '''') else Inl e))
      | _ \<Rightarrow> ([], Inl ValueError))"

text \<open>
  \<open>ChargerEntity.set_value_from_key\<close>: what was logged, the data object afterwards,
  and the value returned or the exception raised. There is no \<open>try\<close> here.
\<close>

definition set_dispatch ::
  "easee_data \<Rightarrow> string \<Rightarrow> string \<Rightarrow> string \<Rightarrow> pyval \<Rightarrow>
     log_entry list \<times> easee_data \<times> (py_error + pyval)" where
  "set_dispatch d key first second v =
     (if first = ''config'' then
        (if config d \<noteq> None then
           (case setitem (config d) second v of
              Inl e \<Rightarrow> ([], d, Inl e)
            | Inr b \<Rightarrow> ([], d\<lparr>config := b\<rparr>, Inr v))
         else ([], d, Inr v))
      else if first = ''state'' then
        (if state d \<noteq> None then
           (case setitem (state d) second v of
              Inl e \<Rightarrow> ([], d, Inl e)
            | Inr b \<Rightarrow> ([], d\<lparr>state := b\<rparr>, Inr v))
         else ([], d, Inr v))
      else if first = ''circuit'' then
        (case setitem (circuit d) second v of
           Inl e \<Rightarrow> ([], d, Inl e)
         | Inr b \<Rightarrow> ([], d\<lparr>circuit := b\<rparr>, Inr v))
      else if first = ''site'' then
        (case setitem (site d) second v of
           Inl e \<Rightarrow> ([], d, Inl e)
         | Inr b \<Rightarrow> ([], d\<lparr>site := b\<rparr>, Inr v))
      else if first = ''schedule'' then
        (if schedule d \<noteq> None then
           (case setitem (schedule d) second v of
              Inl e \<Rightarrow> ([], d, Inl e)
            | Inr b \<Rightarrow> ([], d\<lparr>schedule := b\<rparr>, Inr v))
         else ([], d, Inr v))
      else if first = ''weekly_schedule'' then
        (if weekly_schedule d \<noteq> None then
           (case setitem (weekly_schedule d) second v of
              Inl e \<Rightarrow> ([], d, Inl e)
            | Inr b \<Rightarrow> ([], d\<lparr>weekly_schedule := b\<rparr>, Inr v))
         else ([], d, Inr v))
      else ([LogError (''Unknown first part of key: '' @ key)], d,
            Inl (IndexError ''Unknown first part of key'')))"

definition set_value_from_key ::
  "easee_data \<Rightarrow> string \<Rightarrow> pyval \<Rightarrow> log_entry list \<times> easee_data \<times> (py_error + pyval)" where
  "set_value_from_key d key v =
     (case str_split (CHR ''.'') key of
        [first, second] \<Rightarrow> set_dispatch d key first second v
      | _ \<Rightarrow> ([], d, Inl ValueError))"

section \<open>Rounding helpers\<close>

text \<open>
  \<open>f * n\<close> for a float and an integer that converts to a float exactly (the module
  multiplies by 1000 only): the exact product, rounded to a double; an infinity keeps
  or flips its sign, and times zero is NaN; NaN stays NaN.
\<close>

definition float_mul :: "env \<Rightarrow> pyfloat \<Rightarrow> int \<Rightarrow> pyfloat" where
  "float_mul E f n =
     (case f of
        Finite q \<Rightarrow> to_double E (q * of_int n)
      | Infinite s \<Rightarrow> if n = 0 then NaN else Infinite (s = (0 < n))
      | NaN \<Rightarrow> NaN)"

text \<open>Rounding to the nearest integer, a tie going to the even neighbour.\<close>

definition round_half_even :: "rat \<Rightarrow> int" where
  "round_half_even q =
     (let n = \<lfloor>q\<rfloor>; r = q - of_int n
      in if r < 1 / 2 then n
         else if 1 / 2 < r then n + 1
         else if even n then n else n + 1)"

text \<open>
  \<open>round(f)\<close>: the nearest integer of a finite float, ties to even; an infinity
  raises OverflowError and NaN raises ValueError.
\<close>

definition float_round :: "pyfloat \<Rightarrow> py_error + int" where
  "float_round f =
     (case f of
        Finite q \<Rightarrow> Inr (round_half_even q)
      | Infinite s \<Rightarrow> Inl OverflowError
      | NaN \<Rightarrow> Inl ValueError)"

text \<open>
  \<open>round(f, n)\<close> for \<open>n \<ge> 0\<close>: a finite float is rounded at the \<open>n\<close>-th decimal
  and the result made a double again (OverflowError when that is too large); an
  infinity and NaN round to themselves.
\<close>

definition float_round_n :: "env \<Rightarrow> pyfloat \<Rightarrow> nat \<Rightarrow> py_error + pyfloat" where
  "float_round_n E f n =
     (case f of
        Finite q \<Rightarrow>
          (case to_double E (of_int (round_half_even (q * 10 ^ n)) / 10 ^ n) of
             Finite p \<Rightarrow> Inr (Finite p)
           | Infinite s \<Rightarrow> Inl OverflowError
           | NaN \<Rightarrow> Inr NaN)
      | Infinite s \<Rightarrow> Inr (Infinite s)
      | NaN \<Rightarrow> Inr NaN)"

text \<open>
  \<open>value * n\<close> for an integer \<open>n\<close>: numbers multiply, strings and lists repeat,
  everything else is a TypeError.
\<close>

definition py_mul :: "env \<Rightarrow> pyval \<Rightarrow> int \<Rightarrow> py_error + pyval" where
  "py_mul E v n =
     (case v of
        VNone \<Rightarrow> Inl TypeError
      | VBool b \<Rightarrow> Inr (VInt ((if b then 1 else 0) * n))
      | VInt i \<Rightarrow> Inr (VInt (i * n))
      | VFloat f \<Rightarrow> Inr (VFloat (float_mul E f n))
      | VStr s \<Rightarrow> Inr (VStr (concat (replicate (nat n) s)))
      | VDatetime t \<Rightarrow> Inl TypeError
      | VList xs \<Rightarrow> Inr (VList (concat (replicate (nat n) xs)))
      | VDict kvs \<Rightarrow> Inl TypeError)"

text \<open>
  The builtin \<open>round(value, decimals)\<close>, for \<open>decimals\<close> either \<open>None\<close> or a
  non-negative count (the module passes \<open>None\<close>, 1 and 2 only). An int or a bool
  rounds to the int it is; a float rounds to an int without \<open>decimals\<close> and to a
  float with; anything else is a TypeError.
\<close>

definition py_round :: "env \<Rightarrow> pyval \<Rightarrow> nat option \<Rightarrow> py_error + pyval" where
  "py_round E v decimals =
     (case v of
        VBool b \<Rightarrow> Inr (VInt (if b then 1 else 0))
      | VInt i \<Rightarrow> Inr (VInt i)
      | VFloat f \<Rightarrow>
          (case decimals of
             None \<Rightarrow> (case float_round f of Inl e \<Rightarrow> Inl e | Inr i \<Rightarrow> Inr (VInt i))
           | Some n \<Rightarrow>
               (case float_round_n E f n of Inl e \<Rightarrow> Inl e | Inr g \<Rightarrow> Inr (VFloat g)))
      | _ \<Rightarrow> Inl TypeError)"

text \<open>
  \<open>round_to_dec\<close>. The multiplication stands before the \<open>try\<close>, so its TypeError
  propagates; the TypeError of \<open>round\<close> is caught and the value (as it is by then)
  is returned.
\<close>

definition round_to_dec :: "env \<Rightarrow> pyval \<Rightarrow> nat option \<Rightarrow> string option \<Rightarrow> py_error + pyval" where
  "round_to_dec E v decimals unit =
     (case (if unit = Some (WATT E) \<or> unit = Some (WATT_HOUR E)
            then (py_mul E v 1000, None) else (Inr v, decimals)) of
        (Inl e, _) \<Rightarrow> Inl e
      | (Inr v', decimals') \<Rightarrow>
          (case py_round E v' decimals' of
             Inl e \<Rightarrow> if e = TypeError then Inr v' else Inl e
           | Inr r \<Rightarrow> Inr r))"

definition round_2_dec :: "env \<Rightarrow> pyval \<Rightarrow> string option \<Rightarrow> py_error + pyval" where
  "round_2_dec E v unit = round_to_dec E v (Some 2) unit"

definition round_1_dec :: "env \<Rightarrow> pyval \<Rightarrow> string option \<Rightarrow> py_error + pyval" where
  "round_1_dec E v unit = round_to_dec E v (Some 1) unit"

definition round_0_dec :: "env \<Rightarrow> pyval \<Rightarrow> string option \<Rightarrow> py_error + pyval" where
  "round_0_dec E v unit = round_to_dec E v None unit"

section \<open>The entity and its update\<close>

text \<open>
  The fields of \<open>ChargerEntity\<close> that \<open>async_update\<close> reads or writes;
  \<open>entity_state\<close> is \<open>self._state\<close>. The two callables are arbitrary functions
  that return a value or raise.
\<close>

record charger_entity =
  data :: easee_data
  entity_name :: string
  state_key :: string
  units :: "string option"
  convert_units_func :: "(pyval \<Rightarrow> string option \<Rightarrow> py_error + pyval) option"
  state_func :: "(bucket option \<Rightarrow> py_error + pyval) option"
  entity_state :: pyval

definition startswith :: "string \<Rightarrow> string \<Rightarrow> bool" where
  "startswith s p = (take (length p) s = p)"

text \<open>
  The body of the \<open>try\<close> is a run of assignments to \<open>self._state\<close>. A run is
  described by the state so far and the exception that stopped it, if any.
  \<open>assign r s\<close> is \<open>self._state = r\<close>: a raising right-hand side leaves the
  state as it was. \<open>then_step\<close> runs the next statement unless an exception is
  already on its way.
\<close>

definition assign :: "py_error + pyval \<Rightarrow> pyval \<Rightarrow> pyval \<times> py_error option" where
  "assign r s = (case r of Inl e \<Rightarrow> (s, Some e) | Inr v \<Rightarrow> (v, None))"

definition then_step ::
  "pyval \<times> py_error option \<Rightarrow> (pyval \<Rightarrow> pyval \<times> py_error option) \<Rightarrow> pyval \<times> py_error option" where
  "then_step r f = (case r of (s, Some e) \<Rightarrow> (s, Some e) | (s, None) \<Rightarrow> f s)"

text \<open>The four \<open>startswith\<close> tests under \<open>if self._state_func is not None\<close>, in order.\<close>

definition call_state_func ::
  "(bucket option \<Rightarrow> py_error + pyval) \<Rightarrow> string \<Rightarrow> easee_data \<Rightarrow> pyval \<Rightarrow>
     pyval \<times> py_error option" where
  "call_state_func f key d s =
     then_step
       (then_step
          (then_step
             (if startswith key ''state'' then assign (f (state d)) s else (s, None))
             (\<lambda>s. if startswith key ''config'' then assign (f (config d)) s else (s, None)))
          (\<lambda>s. if startswith key ''schedule'' then assign (f (schedule d)) s else (s, None)))
       (\<lambda>s. if startswith key ''weekly_schedule'' then assign (f (weekly_schedule d)) s
            else (s, None))"

text \<open>
  The body of the \<open>try\<close> in \<open>async_update\<close>, entered with \<open>self._state = None\<close>:
  what the lookup logged, the final \<open>self._state\<close>, and the exception raised.
\<close>

definition update_body ::
  "env \<Rightarrow> charger_entity \<Rightarrow> log_entry list \<times> pyval \<times> py_error option" where
  "update_body E e =
     (case get_value_from_key E (data e) (state_key e) of
        (lg, r) \<Rightarrow>
          (lg,
           then_step
             (then_step
                (then_step (assign r VNone)
                   (\<lambda>s. (if s = VStr '''' then VNone else s, None)))
                (\<lambda>s. case state_func e of
                       None \<Rightarrow> (s, None)
                     | Some f \<Rightarrow> call_state_func f (state_key e) (data e) s))
             (\<lambda>s. case convert_units_func e of
                    None \<Rightarrow> (s, None)
                  | Some c \<Rightarrow> assign (c s (units e)) s)))"

text \<open>
  The \<open>except\<close> clauses: an IndexError is raised again with a new message,
  AttributeError, KeyError and TypeError are passed over, anything else propagates.
\<close>

definition update_handler :: "string \<Rightarrow> py_error option \<Rightarrow> py_error + unit" where
  "update_handler key exc =
     (case exc of
        None \<Rightarrow> Inr ()
      | Some AttributeError \<Rightarrow> Inr ()
      | Some (IndexError msg) \<Rightarrow> Inl (IndexError (''Wrong key for entity: '' @ key))
      | Some KeyError \<Rightarrow> Inr ()
      | Some TypeError \<Rightarrow> Inr ()
      | Some ValueError \<Rightarrow> Inl ValueError
      | Some OverflowError \<Rightarrow> Inl OverflowError)"

text \<open>
  \<open>ChargerEntity.async_update\<close>: what was logged, the entity afterwards, and whether
  the call returned or raised.
\<close>

definition async_update ::
  "env \<Rightarrow> charger_entity \<Rightarrow> log_entry list \<times> charger_entity \<times> (py_error + unit)" where
  "async_update E e =
     (case update_body E e of
        (lg, s, exc) \<Rightarrow>
          (LogDebug (''Entity async_update : '' @ product_id (data e) @ '' '' @ entity_name e)
             # lg,
           e\<lparr>entity_state := s\<rparr>,
           update_handler (state_key e) exc))"

section \<open>Device conditions\<close>

text \<open>
  An entry of the host's entity registry, with the two attributes that are read, and a
  condition dictionary, one field for each of its keys \<open>CONF_CONDITION\<close>,
  \<open>CONF_DEVICE_ID\<close>, \<open>CONF_DOMAIN\<close>, \<open>CONF_ENTITY_ID\<close> and \<open>CONF_TYPE\<close>.
\<close>

record registry_entry =
  entity_id :: string
  translation_key :: "string option"

record condition =
  conf_condition :: string
  conf_device_id :: string
  conf_domain :: string
  conf_entity_id :: string
  conf_type :: string

text \<open>
  \<open>async_get_conditions\<close>. The host's \<open>er.async_entries_for_device\<close> on the
  registry of \<open>hass\<close> is the parameter \<open>entries_for_device\<close>; \<open>DOMAIN\<close> and
  \<open>CONDITION_TYPES\<close> (the values of \<open>EASEE_STATUS\<close>) come from the module
  \<open>const\<close>. The loop appends to \<open>conditions\<close> entry by entry.
\<close>

definition async_get_conditions ::
  "(string \<Rightarrow> registry_entry list) \<Rightarrow> string \<Rightarrow> string list \<Rightarrow> string \<Rightarrow> condition list" where
  "async_get_conditions entries_for_device DOMAIN CONDITION_TYPES device_id =
     foldl
       (\<lambda>conditions entry.
          if translation_key entry = Some ''easee_status'' then
            conditions @
              map (\<lambda>cond.
                     \<lparr>conf_condition = ''device'', conf_device_id = device_id,
                      conf_domain = DOMAIN, conf_entity_id = entity_id entry,
                      conf_type = cond\<rparr>)
                CONDITION_TYPES
          else conditions)
       [] (entries_for_device device_id)"

section \<open>Vocabulary of the properties\<close>

text \<open>The prefixes \<open>get_value_from_key\<close> knows, and those \<open>set_value_from_key\<close> knows.\<close>

definition bucket_prefixes :: "string list" where
  "bucket_prefixes =
     [''config'', ''state'', ''circuit'', ''site'', ''cost_day'', ''cost_month'',
      ''cost_year'', ''schedule'', ''weekly_schedule'']"

definition settable_prefixes :: "string list" where
  "settable_prefixes =
     [''config'', ''state'', ''circuit'', ''site'', ''schedule'', ''weekly_schedule'']"

text \<open>The attribute of the data object that a prefix names.\<close>

definition bucket_named :: "easee_data \<Rightarrow> string \<Rightarrow> bucket option" where
  "bucket_named d name =
     (if name = ''config'' then config d
      else if name = ''state'' then state d
      else if name = ''circuit'' then circuit d
      else if name = ''site'' then site d
      else if name = ''cost_day'' then cost_day d
      else if name = ''cost_month'' then cost_month d
      else if name = ''cost_year'' then cost_year d
      else if name = ''schedule'' then schedule d
      else if name = ''weekly_schedule'' then weekly_schedule d
      else None)"

text \<open>The values \<open>round\<close> accepts: bool, int and float.\<close>

definition is_numeric :: "pyval \<Rightarrow> bool" where
  "is_numeric v = (case v of VBool b \<Rightarrow> True | VInt i \<Rightarrow> True | VFloat f \<Rightarrow> True | _ \<Rightarrow> False)"

text \<open>The exceptions the last \<open>except\<close> clause of \<open>async_update\<close> passes over.\<close>

definition swallowed :: "py_error \<Rightarrow> bool" where
  "swallowed err = (err = AttributeError \<or> err = KeyError \<or> err = TypeError)"

text \<open>
  Python's \<open>==\<close> on datetimes: two naive ones are equal when their readings are,
  two aware ones when they name the same instant, and a naive one never equals an
  aware one.
\<close>

definition datetime_eq :: "datetime \<Rightarrow> datetime \<Rightarrow> bool" where
  "datetime_eq a b =
     (case (tzinfo a, tzinfo b) of
        (None, None) \<Rightarrow> wall_clock a = wall_clock b
      | (Some x, Some y) \<Rightarrow> wall_clock a - x = wall_clock b - y
      | _ \<Rightarrow> False)"

text \<open>
  The bucket \<open>state_func\<close> is called with, if any: the prefix tests of
  \<open>async_update\<close> exclude one another, so at most one of them fires.
\<close>

definition state_func_arg :: "easee_data \<Rightarrow> string \<Rightarrow> bucket option option" where
  "state_func_arg d key =
     (if startswith key ''state'' then Some (state d)
      else if startswith key ''config'' then Some (config d)
      else if startswith key ''schedule'' then Some (schedule d)
      else if startswith key ''weekly_schedule'' then Some (weekly_schedule d)
      else None)"

section \<open>A concrete installation\<close>

text \<open>
  An environment and a data object on which the properties below are exercised. The
  host's \<open>as_local\<close> is taken for a host whose zone is a fixed offset from UTC: a
  naive datetime gets the local zone attached, an aware one is moved to it. The units
  are the host's \<open>W\<close> and \<open>Wh\<close>. The floats of the examples and their products
  with 1000 are doubles, so \<open>to_double\<close> has nothing to round there and is taken
  exact.
\<close>

definition as_local_fixed :: "int \<Rightarrow> datetime \<Rightarrow> datetime" where
  "as_local_fixed off t =
     (case tzinfo t of
        None \<Rightarrow> Datetime (wall_clock t) (Some off)
      | Some z \<Rightarrow> Datetime (wall_clock t - z + off) (Some off))"

definition example_env :: env where
  "example_env =
     \<lparr>WATT = ''W'', WATT_HOUR = ''Wh'', as_local = as_local_fixed 60,
      to_double = Finite\<rparr>"

definition example_data :: easee_data where
  "example_data =
     \<lparr>product_id = ''EH000001'',
      config = Some [''isEnabled'' \<mapsto> VBool True],
      state = Some [''totalPower'' \<mapsto> VInt 7,
                    ''latestPulse'' \<mapsto> VDatetime (Datetime 600 (Some 0))],
      circuit = None,
      site = Some [''name'' \<mapsto> VStr ''Home'',
                   ''createdOn'' \<mapsto> VDatetime (Datetime 600 None)],
      cost_day = Some [''total_cost'' \<mapsto> VInt 5],
      cost_month = Some Map.empty,
      cost_year = Some Map.empty,
      schedule = None,
      weekly_schedule = None\<rparr>"

text \<open>
  An entity whose state key names a datetime and whose conversion is
  \<open>round_1_dec\<close> with the unit \<open>W\<close>, and one whose state key names the missing
  circuit.
\<close>

definition pulse_entity :: charger_entity where
  "pulse_entity =
     \<lparr>data = example_data, entity_name = ''latest_pulse'',
      state_key = ''state.latestPulse'', units = Some ''W'',
      convert_units_func = Some (round_1_dec example_env), state_func = None,
      entity_state = VStr ''stale''\<rparr>"

definition circuit_entity :: charger_entity where
  "circuit_entity =
     \<lparr>data = example_data, entity_name = ''circuit_current'',
      state_key = ''circuit.ratedCurrent'', units = None,
      convert_units_func = Some (round_1_dec example_env), state_func = None,
      entity_state = VStr ''stale''\<rparr>"

text \<open>
  Two entities on \<open>state.totalPower\<close> with a \<open>state_func\<close>: one that reads
  \<open>latestPulse\<close> from the bucket, and one that reads a key the bucket lacks.
\<close>

definition func_entity :: charger_entity where
  "func_entity =
     \<lparr>data = example_data, entity_name = ''pulse_power'',
      state_key = ''state.totalPower'', units = Some ''W'',
      convert_units_func = Some (round_1_dec example_env),
      state_func = Some (\<lambda>b. getitem b ''latestPulse''),
      entity_state = VStr ''stale''\<rparr>"

definition failing_func_entity :: charger_entity where
  "failing_func_entity =
     \<lparr>data = example_data, entity_name = ''phase_power'',
      state_key = ''state.totalPower'', units = Some ''W'',
      convert_units_func = Some (round_1_dec example_env),
      state_func = Some (\<lambda>b. getitem b ''phaseMode''),
      entity_state = VStr ''stale''\<rparr>"

text \<open>
  The registry entries of one device: a status sensor, a power sensor and an entity
  without translation key. Any other device has none.
\<close>

definition example_entries :: "string \<Rightarrow> registry_entry list" where
  "example_entries device_id =
     (if device_id = ''dev1'' then
        [\<lparr>entity_id = ''sensor.charger_status'', translation_key = Some ''easee_status''\<rparr>,
         \<lparr>entity_id = ''sensor.charger_power'', translation_key = Some ''power''\<rparr>,
         \<lparr>entity_id = ''sensor.charger_online'', translation_key = None\<rparr>]
      else [])"

section \<open>Splitting: auxiliary facts\<close>

lemma str_split_not_Nil: "str_split sep s \<noteq> []"
  by (induction s) (simp_all add: Let_def)

lemma length_str_split: "length (str_split sep s) = Suc (count_list s sep)"
proof (induction s)
  case Nil
  show ?case by simp
next
  case (Cons c cs)
  have "length (tl (str_split sep cs)) = count_list cs sep"
    using Cons.IH by simp
  then show ?case using Cons.IH by (simp add: Let_def)
qed

lemma str_split_no_sep: "sep \<notin> set s \<Longrightarrow> str_split sep s = [s]"
  by (induction s) (auto simp: Let_def)

lemma str_split_append:
  "sep \<notin> set a \<Longrightarrow> str_split sep (a @ sep # b) = a # str_split sep b"
  by (induction a) (auto simp: Let_def)

lemma str_split_two:
  "sep \<notin> set a \<Longrightarrow> sep \<notin> set b \<Longrightarrow> str_split sep (a @ sep # b) = [a, b]"
  by (simp add: str_split_append str_split_no_sep)

section \<open>Dispatch: auxiliary facts\<close>

lemma in_list9:
  assumes "x \<in> set [a1, a2, a3, a4, a5, a6, a7, a8, a9]"
  obtains "x = a1" | "x = a2" | "x = a3" | "x = a4" | "x = a5" | "x = a6" | "x = a7"
    | "x = a8" | "x = a9"
  using assms by auto

lemma get_dispatch_known:
  assumes "first \<in> set bucket_prefixes"
  shows "get_dispatch d key first second =
           ([], case bucket_named d first of
                  None \<Rightarrow> if first = ''schedule'' \<or> first = ''weekly_schedule''
                          then Inr VNone else Inl TypeError
                | Some m \<Rightarrow> (case m second of None \<Rightarrow> Inl KeyError | Some v \<Rightarrow> Inr v))"
proof -
  consider "first = ''config''" | "first = ''state''" | "first = ''circuit''"
    | "first = ''site''" | "first = ''cost_day''" | "first = ''cost_month''"
    | "first = ''cost_year''" | "first = ''schedule''" | "first = ''weekly_schedule''"
    using assms unfolding bucket_prefixes_def by (rule in_list9)
  then show ?thesis
  proof cases
    case 1 then show ?thesis
      by (simp add: get_dispatch_def bucket_named_def getitem_def split: option.split)
  next
    case 2 then show ?thesis
      by (simp add: get_dispatch_def bucket_named_def getitem_def split: option.split)
  next
    case 3 then show ?thesis
      by (simp add: get_dispatch_def bucket_named_def getitem_def split: option.split)
  next
    case 4 then show ?thesis
      by (simp add: get_dispatch_def bucket_named_def getitem_def split: option.split)
  next
    case 5 then show ?thesis
      by (simp add: get_dispatch_def bucket_named_def getitem_def split: option.split)
  next
    case 6 then show ?thesis
      by (simp add: get_dispatch_def bucket_named_def getitem_def split: option.split)
  next
    case 7 then show ?thesis
      by (simp add: get_dispatch_def bucket_named_def getitem_def split: option.split)
  next
    case 8 then show ?thesis
      by (simp add: get_dispatch_def bucket_named_def getitem_def split: option.split)
  next
    case 9 then show ?thesis
      by (simp add: get_dispatch_def bucket_named_def getitem_def split: option.split)
  qed
qed

lemma get_dispatch_unknown:
  assumes "first \<notin> set bucket_prefixes"
  shows "get_dispatch d key first second =
           ([LogError (''Unknown first part of key: '' @ key)],
            Inl (IndexError ''Unknown first part of key''))"
  using assms by (simp add: get_dispatch_def bucket_prefixes_def)

section \<open>Reading a known key\<close>

text \<open>
  C1, as the code has it. A key splits at its dot into \<open>first\<close> and \<open>second\<close>
  (by \<open>str_split_two\<close>, every key \<open>first.second\<close> with no dot in either part does). When
  \<open>first\<close> is one of the nine known prefixes, its bucket is a dictionary and holds
  \<open>second\<close>, \<open>get_value_from_key\<close> logs nothing and returns the stored value, moved to
  local time by \<open>as_local\<close> when that value is a datetime and untouched otherwise.
\<close>

theorem get_known_key:
  assumes "str_split (CHR ''.'') key = [first, second]"
    and "first \<in> set bucket_prefixes"
    and "bucket_named d first = Some m"
    and "m second = Some v"
  shows "get_value_from_key E d key =
           ([], Inr (case v of VDatetime t \<Rightarrow> VDatetime (as_local E t) | _ \<Rightarrow> v))"
  using assms
  by (simp add: get_value_from_key_def get_dispatch_known localize_def)

theorem get_known_key_witness:
  "get_value_from_key example_env example_data ''state.totalPower'' = ([], Inr (VInt 7))"
proof -
  have 1: "str_split (CHR ''.'') ''state.totalPower'' = [''state'', ''totalPower'']"
    by (simp add: Let_def)
  have 2: "''state'' \<in> set bucket_prefixes"
    by (simp add: bucket_prefixes_def)
  have 3: "bucket_named example_data ''state'' =
             Some [''totalPower'' \<mapsto> VInt 7,
                   ''latestPulse'' \<mapsto> VDatetime (Datetime 600 (Some 0))]"
    by (simp add: bucket_named_def example_data_def)
  have 4: "[''totalPower'' \<mapsto> VInt 7,
            ''latestPulse'' \<mapsto> VDatetime (Datetime 600 (Some 0))] ''totalPower''
           = Some (VInt 7)"
    by simp
  show ?thesis
    using get_known_key [OF 1 2 3 4, of example_env] by simp
qed

text \<open>
  The value stored under \<open>site.createdOn\<close> is the naive datetime 10:00; on a
  host one hour east of UTC the call returns 10:00 at UTC+1, an aware datetime, which
  is not the stored value, and not equal to it by Python's \<open>==\<close> either.
\<close>

theorem get_known_key_naive_datetime_counterexample:
  "getitem (site example_data) ''createdOn'' = Inr (VDatetime (Datetime 600 None))
   \<and> get_value_from_key example_env example_data ''site.createdOn''
       = ([], Inr (VDatetime (Datetime 600 (Some 60))))
   \<and> \<not> datetime_eq (Datetime 600 (Some 60)) (Datetime 600 None)
   \<and> get_value_from_key example_env example_data ''site.createdOn''
       \<noteq> ([], Inr (VDatetime (Datetime 600 None)))"
  by (simp add: get_value_from_key_def get_dispatch_def getitem_def example_data_def
      example_env_def localize_def as_local_fixed_def datetime_eq_def Let_def)

section \<open>Storing: auxiliary facts\<close>

lemma in_list6:
  assumes "x \<in> set [a1, a2, a3, a4, a5, a6]"
  obtains "x = a1" | "x = a2" | "x = a3" | "x = a4" | "x = a5" | "x = a6"
  using assms by auto

lemma set_dispatch_unknown:
  assumes "first \<notin> set settable_prefixes"
  shows "set_dispatch d key first second v =
           ([LogError (''Unknown first part of key: '' @ key)], d,
            Inl (IndexError ''Unknown first part of key''))"
  using assms by (simp add: set_dispatch_def settable_prefixes_def)

lemma set_dispatch_result:
  "snd (snd (set_dispatch d key first second v)) = Inr r \<Longrightarrow> r = v"
  by (simp add: set_dispatch_def setitem_def split: if_splits option.splits)

lemma set_dispatch_no_ValueError:
  "snd (snd (set_dispatch d key first second v)) \<noteq> Inl ValueError"
  by (simp add: set_dispatch_def setitem_def split: option.splits)

lemma getitem_no_ValueError: "getitem b k \<noteq> Inl ValueError"
  by (simp add: getitem_def split: option.splits)

lemma get_dispatch_no_ValueError:
  "snd (get_dispatch d key first second) \<noteq> Inl ValueError"
  by (simp add: get_dispatch_def getitem_no_ValueError)

lemma set_dispatch_stores:
  assumes "first \<in> set settable_prefixes"
    and "bucket_named d first = Some m"
  shows "\<exists>d'. set_dispatch d key first second v = ([], d', Inr v) \<and>
           bucket_named d' first = Some (m(second \<mapsto> v)) \<and>
           (\<forall>name. name \<noteq> first \<longrightarrow> bucket_named d' name = bucket_named d name) \<and>
           product_id d' = product_id d"
proof -
  consider "first = ''config''" | "first = ''state''" | "first = ''circuit''"
    | "first = ''site''" | "first = ''schedule''" | "first = ''weekly_schedule''"
    using assms(1) unfolding settable_prefixes_def by (rule in_list6)
  then show ?thesis
  proof cases
    case 1 with assms(2) show ?thesis
      by (simp add: set_dispatch_def bucket_named_def setitem_def)
  next
    case 2 with assms(2) show ?thesis
      by (simp add: set_dispatch_def bucket_named_def setitem_def)
  next
    case 3 with assms(2) show ?thesis
      by (simp add: set_dispatch_def bucket_named_def setitem_def)
  next
    case 4 with assms(2) show ?thesis
      by (simp add: set_dispatch_def bucket_named_def setitem_def)
  next
    case 5 with assms(2) show ?thesis
      by (simp add: set_dispatch_def bucket_named_def setitem_def)
  next
    case 6 with assms(2) show ?thesis
      by (simp add: set_dispatch_def bucket_named_def setitem_def)
  qed
qed

lemma set_dispatch_none:
  assumes "first = ''config'' \<or> first = ''state'' \<or> first = ''schedule''
             \<or> first = ''weekly_schedule''"
    and "bucket_named d first = None"
  shows "set_dispatch d key first second v = ([], d, Inr v)"
  using assms
  by (elim disjE) (simp_all add: set_dispatch_def bucket_named_def)

lemma bucket_le_settable: "first \<notin> set bucket_prefixes \<Longrightarrow> first \<notin> set settable_prefixes"
  by (simp add: bucket_prefixes_def settable_prefixes_def)

section \<open>Unknown prefixes\<close>

text \<open>
  C2. A key splits at its dot into \<open>first\<close> and \<open>second\<close>, and \<open>first\<close> is none of
  the nine known prefixes. Then \<open>get_value_from_key\<close> and \<open>set_value_from_key\<close> both
  log the key at error level and raise IndexError. The error comes out of
  \<open>get_value_from_key\<close> although its body is inside \<open>try\<close>, since only KeyError is
  caught there; \<open>set_value_from_key\<close> leaves the data object as it was.
\<close>

theorem unknown_prefix_raises:
  assumes "str_split (CHR ''.'') key = [first, second]"
    and "first \<notin> set bucket_prefixes"
  shows "get_value_from_key E d key =
           ([LogError (''Unknown first part of key: '' @ key)],
            Inl (IndexError ''Unknown first part of key''))
         \<and> set_value_from_key d key v =
           ([LogError (''Unknown first part of key: '' @ key)], d,
            Inl (IndexError ''Unknown first part of key''))"
  using assms
  by (simp add: get_value_from_key_def set_value_from_key_def get_dispatch_unknown
      set_dispatch_unknown bucket_le_settable)

theorem unknown_prefix_raises_witness:
  "get_value_from_key example_env example_data ''foo.bar'' =
     ([LogError ''Unknown first part of key: foo.bar''],
      Inl (IndexError ''Unknown first part of key''))
   \<and> set_value_from_key example_data ''foo.bar'' (VInt 1) =
     ([LogError ''Unknown first part of key: foo.bar''], example_data,
      Inl (IndexError ''Unknown first part of key''))"
proof -
  have 1: "str_split (CHR ''.'') ''foo.bar'' = [''foo'', ''bar'']"
    by (simp add: Let_def)
  have 2: "''foo'' \<notin> set bucket_prefixes"
    by (simp add: bucket_prefixes_def)
  show ?thesis
    using unknown_prefix_raises [OF 1 2, of example_env example_data "VInt 1"] by simp
qed

section \<open>Missing keys and missing schedules\<close>

text \<open>
  C5. When \<open>first\<close> names a known bucket that is a dictionary and \<open>second\<close> is not
  among its keys, \<open>get_value_from_key\<close> raises nothing, logs nothing and returns the
  empty string.
\<close>

theorem get_missing_key_empty:
  assumes "str_split (CHR ''.'') key = [first, second]"
    and "first \<in> set bucket_prefixes"
    and "bucket_named d first = Some m"
    and "m second = None"
  shows "get_value_from_key E d key = ([], Inr (VStr ''''))"
  using assms
  by (simp add: get_value_from_key_def get_dispatch_known)

theorem get_missing_key_empty_witness:
  "get_value_from_key example_env example_data ''cost_month.total_cost'' = ([], Inr (VStr ''''))"
proof -
  have 1: "str_split (CHR ''.'') ''cost_month.total_cost'' = [''cost_month'', ''total_cost'']"
    by (simp add: Let_def)
  have 2: "''cost_month'' \<in> set bucket_prefixes"
    by (simp add: bucket_prefixes_def)
  have 3: "bucket_named example_data ''cost_month'' = Some Map.empty"
    by (simp add: bucket_named_def example_data_def)
  have 4: "(Map.empty :: bucket) ''total_cost'' = None"
    by simp
  show ?thesis
    using get_missing_key_empty [OF 1 2 3 4, of example_env] by simp
qed

text \<open>
  C10. When \<open>first\<close> is \<open>schedule\<close> or \<open>weekly_schedule\<close> and that bucket is
  \<open>None\<close>, \<open>get_value_from_key\<close> returns \<open>None\<close>: neither the empty string nor
  an error.
\<close>

theorem get_schedule_none:
  assumes "str_split (CHR ''.'') key = [first, second]"
    and "first = ''schedule'' \<or> first = ''weekly_schedule''"
    and "bucket_named d first = None"
  shows "get_value_from_key E d key = ([], Inr VNone)"
proof -
  have "first \<in> set bucket_prefixes"
    using assms(2) by (auto simp: bucket_prefixes_def)
  then show ?thesis
    using assms by (simp add: get_value_from_key_def get_dispatch_known localize_def)
qed

theorem get_schedule_none_witness:
  "get_value_from_key example_env example_data ''weekly_schedule.MondayStartTime''
     = ([], Inr VNone)"
proof -
  have 1: "str_split (CHR ''.'') ''weekly_schedule.MondayStartTime''
             = [''weekly_schedule'', ''MondayStartTime'']"
    by (simp add: Let_def)
  have 2: "''weekly_schedule'' = ''schedule'' \<or> ''weekly_schedule'' = ''weekly_schedule''"
    by simp
  have 3: "bucket_named example_data ''weekly_schedule'' = None"
    by (simp add: bucket_named_def example_data_def)
  show ?thesis
    using get_schedule_none [OF 1 2 3, of example_env] by simp
qed

lemma unpack_two:
  "length xs = 2 \<Longrightarrow> \<exists>a b. xs = [a, b]"
  by (cases xs; cases "tl xs") auto

section \<open>The shape of a key\<close>

text \<open>
  C7. A key that does not split at \<open>.\<close> into exactly two pieces makes both
  \<open>get_value_from_key\<close> and \<open>set_value_from_key\<close> fail (with the ValueError of the
  unpacking) instead of returning a value. A key with exactly one dot never meets that
  error. The key splits into two pieces exactly when it holds one dot.
\<close>

theorem two_part_key_enforced:
  "(length (str_split (CHR ''.'') key) \<noteq> 2 \<longrightarrow>
      get_value_from_key E d key = ([], Inl ValueError)
      \<and> set_value_from_key d key v = ([], d, Inl ValueError))
   \<and> (count_list key (CHR ''.'') = 1 \<longrightarrow>
      snd (get_value_from_key E d key) \<noteq> Inl ValueError
      \<and> snd (snd (set_value_from_key d key v)) \<noteq> Inl ValueError)
   \<and> (length (str_split (CHR ''.'') key) = 2) = (count_list key (CHR ''.'') = 1)"
proof (intro conjI impI)
  assume "length (str_split (CHR ''.'') key) \<noteq> 2"
  then show "get_value_from_key E d key = ([], Inl ValueError)"
    and "set_value_from_key d key v = ([], d, Inl ValueError)"
    by (auto simp: get_value_from_key_def set_value_from_key_def split: list.splits)
next
  assume "count_list key (CHR ''.'') = 1"
  then have "length (str_split (CHR ''.'') key) = 2"
    by (simp add: length_str_split)
  then obtain a b where ab: "str_split (CHR ''.'') key = [a, b]"
    using unpack_two by blast
  show "snd (get_value_from_key E d key) \<noteq> Inl ValueError"
    using get_dispatch_no_ValueError [of d key a b]
    by (cases "get_dispatch d key a b")
      (auto simp: get_value_from_key_def ab split: sum.splits)
  show "snd (snd (set_value_from_key d key v)) \<noteq> Inl ValueError"
    using set_dispatch_no_ValueError [of d key a b v]
    by (simp add: set_value_from_key_def ab)
next
  show "(length (str_split (CHR ''.'') key) = 2) = (count_list key (CHR ''.'') = 1)"
    by (simp add: length_str_split)
qed

theorem two_part_key_enforced_witness:
  "get_value_from_key example_env example_data ''state'' = ([], Inl ValueError)
   \<and> set_value_from_key example_data ''state.total.power'' (VInt 1)
       = ([], example_data, Inl ValueError)
   \<and> snd (get_value_from_key example_env example_data ''state.totalPower'') \<noteq> Inl ValueError
   \<and> snd (snd (set_value_from_key example_data ''state.totalPower'' (VInt 1))) \<noteq> Inl ValueError"
proof -
  have 1: "length (str_split (CHR ''.'') ''state'') \<noteq> 2"
    by (simp add: Let_def)
  have 2: "length (str_split (CHR ''.'') ''state.total.power'') \<noteq> 2"
    by (simp add: Let_def)
  have 3: "count_list ''state.totalPower'' (CHR ''.'') = 1"
    by simp
  show ?thesis
    using 1 2 3
      two_part_key_enforced [of "''state''" example_env example_data "VInt 1"]
      two_part_key_enforced [of "''state.total.power''" example_env example_data "VInt 1"]
      two_part_key_enforced [of "''state.totalPower''" example_env example_data "VInt 1"]
    by blast
qed

lemma set_value_result:
  "snd (snd (set_value_from_key d key v)) = Inr r \<Longrightarrow> r = v"
  by (auto simp: set_value_from_key_def split: list.splits dest: set_dispatch_result)

section \<open>Storing under a key\<close>

text \<open>
  C9. When \<open>first\<close> is \<open>config\<close>, \<open>state\<close>, \<open>schedule\<close> or
  \<open>weekly_schedule\<close> and that bucket is \<open>None\<close>, \<open>set_value_from_key\<close> raises
  nothing, logs nothing, leaves the whole data object as it was and returns \<open>value\<close>.
  Whenever \<open>set_value_from_key\<close> returns at all, it returns \<open>value\<close>.
\<close>

theorem set_none_bucket_noop:
  "(str_split (CHR ''.'') key = [first, second]
      \<and> (first = ''config'' \<or> first = ''state'' \<or> first = ''schedule''
           \<or> first = ''weekly_schedule'')
      \<and> bucket_named d first = None
      \<longrightarrow> set_value_from_key d key v = ([], d, Inr v))
   \<and> (snd (snd (set_value_from_key d key v)) = Inr r \<longrightarrow> r = v)"
proof (intro conjI impI)
  assume "str_split (CHR ''.'') key = [first, second]
      \<and> (first = ''config'' \<or> first = ''state'' \<or> first = ''schedule''
           \<or> first = ''weekly_schedule'')
      \<and> bucket_named d first = None"
  then show "set_value_from_key d key v = ([], d, Inr v)"
    by (simp add: set_value_from_key_def set_dispatch_none)
next
  assume "snd (snd (set_value_from_key d key v)) = Inr r"
  then show "r = v" by (rule set_value_result)
qed

theorem set_none_bucket_noop_witness:
  "set_value_from_key example_data ''schedule.isEnabled'' (VBool True)
     = ([], example_data, Inr (VBool True))"
proof -
  have 1: "str_split (CHR ''.'') ''schedule.isEnabled'' = [''schedule'', ''isEnabled'']"
    by (simp add: Let_def)
  have 2: "bucket_named example_data ''schedule'' = None"
    by (simp add: bucket_named_def example_data_def)
  show ?thesis
    using 1 2
      set_none_bucket_noop [of "''schedule.isEnabled''" "''schedule''" "''isEnabled''"
        example_data "VBool True"]
    by simp
qed

text \<open>
  C3, as the code has it. \<open>set_value_from_key\<close> knows six prefixes: \<open>config\<close>,
  \<open>state\<close>, \<open>circuit\<close>, \<open>site\<close>, \<open>schedule\<close> and \<open>weekly_schedule\<close>. For
  each of them, when the bucket is a dictionary, the call logs nothing, returns
  \<open>value\<close>, stores \<open>value\<close> under \<open>second\<close> in that bucket and leaves every
  other bucket and the product id alone. The prefixes \<open>cost_day\<close>, \<open>cost_month\<close>
  and \<open>cost_year\<close>, which \<open>get_value_from_key\<close> reads, are unknown to it: the key
  is logged, IndexError is raised and nothing is stored.
\<close>

theorem set_known_prefix_stores:
  assumes "str_split (CHR ''.'') key = [first, second]"
  shows "(first \<in> set settable_prefixes \<and> bucket_named d first = Some m \<longrightarrow>
            fst (set_value_from_key d key v) = []
            \<and> snd (snd (set_value_from_key d key v)) = Inr v
            \<and> bucket_named (fst (snd (set_value_from_key d key v))) first
                = Some (m(second \<mapsto> v))
            \<and> (\<forall>name. name \<noteq> first \<longrightarrow>
                  bucket_named (fst (snd (set_value_from_key d key v))) name
                    = bucket_named d name)
            \<and> product_id (fst (snd (set_value_from_key d key v))) = product_id d)
         \<and> (first = ''cost_day'' \<or> first = ''cost_month'' \<or> first = ''cost_year'' \<longrightarrow>
            set_value_from_key d key v =
              ([LogError (''Unknown first part of key: '' @ key)], d,
               Inl (IndexError ''Unknown first part of key'')))"
proof (intro conjI impI)
  assume a: "first \<in> set settable_prefixes \<and> bucket_named d first = Some m"
  have eq: "set_value_from_key d key v = set_dispatch d key first second v"
    using assms by (simp add: set_value_from_key_def)
  obtain d' where d': "set_dispatch d key first second v = ([], d', Inr v)"
    "bucket_named d' first = Some (m(second \<mapsto> v))"
    "\<forall>name. name \<noteq> first \<longrightarrow> bucket_named d' name = bucket_named d name"
    "product_id d' = product_id d"
    using set_dispatch_stores [of first d m key second v] a by blast
  show "fst (set_value_from_key d key v) = []"
    and "snd (snd (set_value_from_key d key v)) = Inr v"
    and "bucket_named (fst (snd (set_value_from_key d key v))) first
           = Some (m(second \<mapsto> v))"
    and "\<forall>name. name \<noteq> first \<longrightarrow>
           bucket_named (fst (snd (set_value_from_key d key v))) name = bucket_named d name"
    and "product_id (fst (snd (set_value_from_key d key v))) = product_id d"
    using d' by (simp_all add: eq)
next
  assume "first = ''cost_day'' \<or> first = ''cost_month'' \<or> first = ''cost_year''"
  then have "first \<notin> set settable_prefixes"
    by (auto simp: settable_prefixes_def)
  then show "set_value_from_key d key v =
              ([LogError (''Unknown first part of key: '' @ key)], d,
               Inl (IndexError ''Unknown first part of key''))"
    using assms by (simp add: set_value_from_key_def set_dispatch_unknown)
qed

theorem set_known_prefix_stores_witness:
  "fst (set_value_from_key example_data ''config.isEnabled'' (VBool False)) = []
   \<and> snd (snd (set_value_from_key example_data ''config.isEnabled'' (VBool False)))
       = Inr (VBool False)
   \<and> bucket_named (fst (snd (set_value_from_key example_data ''config.isEnabled''
        (VBool False)))) ''config'' = Some [''isEnabled'' \<mapsto> VBool False]"
proof -
  have 1: "str_split (CHR ''.'') ''config.isEnabled'' = [''config'', ''isEnabled'']"
    by (simp add: Let_def)
  have 2: "''config'' \<in> set settable_prefixes"
    by (simp add: settable_prefixes_def)
  have 3: "bucket_named example_data ''config'' = Some [''isEnabled'' \<mapsto> VBool True]"
    by (simp add: bucket_named_def example_data_def)
  have 4: "[''isEnabled'' \<mapsto> VBool True](''isEnabled'' \<mapsto> VBool False)
             = [''isEnabled'' \<mapsto> VBool False]"
    by simp
  show ?thesis
    using 2 3 4
      set_known_prefix_stores [OF 1, of example_data "[''isEnabled'' \<mapsto> VBool True]"
        "VBool False"]
    by simp
qed

text \<open>
  The bucket \<open>cost_day\<close> is a dictionary, yet storing under \<open>cost_day.total_cost\<close>
  is refused as an unknown prefix and changes nothing.
\<close>

theorem set_cost_prefix_counterexample:
  "cost_day example_data \<noteq> None
   \<and> set_value_from_key example_data ''cost_day.total_cost'' (VInt 9) =
       ([LogError ''Unknown first part of key: cost_day.total_cost''], example_data,
        Inl (IndexError ''Unknown first part of key''))"
  by (simp add: set_value_from_key_def set_dispatch_def example_data_def Let_def)

section \<open>Device conditions: the list built\<close>

lemma conditions_foldl:
  "foldl
     (\<lambda>conditions entry.
        if translation_key entry = Some ''easee_status'' then
          conditions @ map (\<lambda>cond. mk entry cond) types
        else conditions)
     acc es
   = acc @ concat (map (\<lambda>entry. map (\<lambda>cond. mk entry cond) types)
             (filter (\<lambda>entry. translation_key entry = Some ''easee_status'') es))"
  by (induction es arbitrary: acc) simp_all

text \<open>
  C6. For every device id, \<open>async_get_conditions\<close> returns, in registry order, for
  each entry of the device whose translation key is \<open>easee_status\<close>, one condition
  dictionary per element of \<open>CONDITION_TYPES\<close>, holding the condition \<open>device\<close>,
  the device id, the domain, the entry's entity id and that condition type. Entries with
  another translation key, or with none, contribute nothing.
\<close>

theorem conditions_per_status_entity:
  "async_get_conditions entries_for_device DOMAIN CONDITION_TYPES device_id =
     concat
       (map (\<lambda>entry.
               map (\<lambda>cond.
                      \<lparr>conf_condition = ''device'', conf_device_id = device_id,
                       conf_domain = DOMAIN, conf_entity_id = entity_id entry,
                       conf_type = cond\<rparr>)
                 CONDITION_TYPES)
          (filter (\<lambda>entry. translation_key entry = Some ''easee_status'')
             (entries_for_device device_id)))"
  unfolding async_get_conditions_def
  by (simp add: conditions_foldl
      [where mk = "\<lambda>entry cond. \<lparr>conf_condition = ''device'', conf_device_id = device_id,
                       conf_domain = DOMAIN, conf_entity_id = entity_id entry,
                       conf_type = cond\<rparr>"])

theorem conditions_per_status_entity_witness:
  "async_get_conditions example_entries ''easee'' [''charging'', ''completed''] ''dev1'' =
     [\<lparr>conf_condition = ''device'', conf_device_id = ''dev1'', conf_domain = ''easee'',
       conf_entity_id = ''sensor.charger_status'', conf_type = ''charging''\<rparr>,
      \<lparr>conf_condition = ''device'', conf_device_id = ''dev1'', conf_domain = ''easee'',
       conf_entity_id = ''sensor.charger_status'', conf_type = ''completed''\<rparr>]"
  using conditions_per_status_entity
    [of example_entries "''easee''" "[''charging'', ''completed'']" "''dev1''"]
  by (simp add: example_entries_def)

section \<open>Rounding\<close>

lemma round_half_even_nearest: "\<bar>of_int (round_half_even q) - q\<bar> \<le> 1 / 2"
proof -
  have "of_int \<lfloor>q\<rfloor> \<le> q" and "q < of_int \<lfloor>q\<rfloor> + 1"
    by linarith+
  then show ?thesis
    by (auto simp: round_half_even_def Let_def)
qed

lemma round_half_even_int: "round_half_even (of_int k) = k"
  by (simp add: round_half_even_def Let_def)

lemma round_to_dec_watt:
  assumes "unit = Some (WATT E) \<or> unit = Some (WATT_HOUR E)"
  shows "round_to_dec E v decimals unit =
           (case py_mul E v 1000 of
              Inl e \<Rightarrow> Inl e
            | Inr v' \<Rightarrow>
                (case py_round E v' None of
                   Inl e \<Rightarrow> if e = TypeError then Inr v' else Inl e
                 | Inr r \<Rightarrow> Inr r))"
  using assms by (auto simp: round_to_dec_def split: sum.splits)

lemma round_to_dec_other:
  assumes "unit \<noteq> Some (WATT E)" and "unit \<noteq> Some (WATT_HOUR E)"
  shows "round_to_dec E v decimals unit =
           (case py_round E v decimals of
              Inl e \<Rightarrow> if e = TypeError then Inr v else Inl e
            | Inr r \<Rightarrow> Inr r)"
  using assms by (simp add: round_to_dec_def)

lemma py_round_non_numeric: "\<not> is_numeric v \<Longrightarrow> py_round E v decimals = Inl TypeError"
  by (cases v) (simp_all add: is_numeric_def py_round_def)

lemma py_round_TypeError_iff: "(py_round E v decimals = Inl TypeError) = (\<not> is_numeric v)"
proof (cases v)
  case (VFloat f)
  then show ?thesis
    by (cases f; cases decimals)
      (simp_all add: py_round_def is_numeric_def float_round_def float_round_n_def
        split: pyfloat.splits)
qed (simp_all add: is_numeric_def py_round_def)

lemma round_float_watt:
  assumes "unit = Some (WATT E) \<or> unit = Some (WATT_HOUR E)"
  shows "round_to_dec E (VFloat f) decimals unit =
           (case float_mul E f 1000 of
              Finite p \<Rightarrow> Inr (VInt (round_half_even p))
            | Infinite s \<Rightarrow> Inl OverflowError
            | NaN \<Rightarrow> Inl ValueError)"
  by (simp add: round_to_dec_watt [OF assms] py_mul_def py_round_def float_round_def
      split: pyfloat.splits)

text \<open>
  C8, as the code has it. With the unit \<open>WATT\<close> or \<open>WATT_HOUR\<close>,
  \<open>round_to_dec\<close> gives the same result whatever \<open>decimals\<close> is, so
  \<open>round_2_dec\<close>, \<open>round_1_dec\<close> and \<open>round_0_dec\<close> agree. An int comes back
  multiplied by 1000 and a bool as 1000 or 0. A float is multiplied by 1000; when the
  product is finite it comes back as the nearest integer, ties to even (at most one half
  away), when the product is an infinity OverflowError is raised, and when it is NaN
  ValueError is raised, since only TypeError is caught. With any other unit, a value
  whose rounding raises TypeError, which is every value that is not a bool, an int or a
  float, is returned unchanged.
\<close>

theorem round_to_dec_watt_and_type_error:
  "(unit = Some (WATT E) \<or> unit = Some (WATT_HOUR E) \<longrightarrow>
      round_to_dec E v decimals unit = round_to_dec E v None unit
      \<and> round_2_dec E v unit = round_to_dec E v None unit
      \<and> round_1_dec E v unit = round_to_dec E v None unit
      \<and> round_0_dec E v unit = round_to_dec E v None unit
      \<and> round_to_dec E (VInt i) decimals unit = Inr (VInt (i * 1000))
      \<and> round_to_dec E (VBool b) decimals unit = Inr (VInt (if b then 1000 else 0))
      \<and> round_to_dec E (VFloat f) decimals unit =
          (case float_mul E f 1000 of
             Finite p \<Rightarrow> Inr (VInt (round_half_even p))
           | Infinite s \<Rightarrow> Inl OverflowError
           | NaN \<Rightarrow> Inl ValueError)
      \<and> round_to_dec E (VFloat NaN) decimals unit = Inl ValueError
      \<and> round_to_dec E (VFloat (Infinite s)) decimals unit = Inl OverflowError)
   \<and> \<bar>of_int (round_half_even p) - p\<bar> \<le> 1 / 2
   \<and> (unit \<noteq> Some (WATT E) \<and> unit \<noteq> Some (WATT_HOUR E) \<longrightarrow>
      (py_round E v decimals = Inl TypeError \<longrightarrow> round_to_dec E v decimals unit = Inr v)
      \<and> (\<not> is_numeric v \<longrightarrow> round_to_dec E v decimals unit = Inr v))"
proof (intro conjI impI)
  assume w: "unit = Some (WATT E) \<or> unit = Some (WATT_HOUR E)"
  show "round_to_dec E v decimals unit = round_to_dec E v None unit"
    by (simp add: round_to_dec_watt [OF w])
  show "round_2_dec E v unit = round_to_dec E v None unit"
    by (simp add: round_2_dec_def round_to_dec_watt [OF w])
  show "round_1_dec E v unit = round_to_dec E v None unit"
    by (simp add: round_1_dec_def round_to_dec_watt [OF w])
  show "round_0_dec E v unit = round_to_dec E v None unit"
    by (simp add: round_0_dec_def)
  show "round_to_dec E (VInt i) decimals unit = Inr (VInt (i * 1000))"
    by (simp add: round_to_dec_watt [OF w] py_mul_def py_round_def)
  show "round_to_dec E (VBool b) decimals unit = Inr (VInt (if b then 1000 else 0))"
    by (simp add: round_to_dec_watt [OF w] py_mul_def py_round_def)
  show "round_to_dec E (VFloat f) decimals unit =
          (case float_mul E f 1000 of
             Finite p \<Rightarrow> Inr (VInt (round_half_even p))
           | Infinite s \<Rightarrow> Inl OverflowError
           | NaN \<Rightarrow> Inl ValueError)"
    by (rule round_float_watt [OF w])
  show "round_to_dec E (VFloat NaN) decimals unit = Inl ValueError"
    by (simp add: round_float_watt [OF w] float_mul_def)
  show "round_to_dec E (VFloat (Infinite s)) decimals unit = Inl OverflowError"
    by (simp add: round_float_watt [OF w] float_mul_def)
next
  show "\<bar>of_int (round_half_even p) - p\<bar> \<le> 1 / 2"
    by (rule round_half_even_nearest)
next
  assume o: "unit \<noteq> Some (WATT E) \<and> unit \<noteq> Some (WATT_HOUR E)"
  show "round_to_dec E v decimals unit = Inr v" if "py_round E v decimals = Inl TypeError"
    using that o by (simp add: round_to_dec_other)
  show "round_to_dec E v decimals unit = Inr v" if "\<not> is_numeric v"
    using py_round_non_numeric [OF that] o by (simp add: round_to_dec_other)
qed

lemma float_mul_sixteenth: "float_mul example_env (Finite (1 / 16)) 1000 = Finite (125 / 2)"
  by (simp add: float_mul_def example_env_def)

lemma round_half_even_tie: "round_half_even (125 / 2) = 62"
proof -
  have "\<lfloor>125 / 2 :: rat\<rfloor> = 62" by (rule floor_unique) simp_all
  then show ?thesis by (simp add: round_half_even_def Let_def)
qed

theorem round_to_dec_watt_and_type_error_witness:
  "round_2_dec example_env (VInt 7) (Some ''W'') = Inr (VInt 7000)
   \<and> round_1_dec example_env (VInt 7) (Some ''Wh'') = Inr (VInt 7000)
   \<and> round_to_dec example_env (VFloat (Finite (1 / 16))) (Some 2) (Some ''W'') = Inr (VInt 62)
   \<and> round_to_dec example_env (VStr ''n/a'') (Some 2) (Some ''A'') = Inr (VStr ''n/a'')"
proof -
  have 1: "Some ''W'' = Some (WATT example_env) \<or> Some ''W'' = Some (WATT_HOUR example_env)"
    by (simp add: example_env_def)
  have 2: "Some ''Wh'' = Some (WATT example_env) \<or> Some ''Wh'' = Some (WATT_HOUR example_env)"
    by (simp add: example_env_def)
  have 3: "Some ''A'' \<noteq> Some (WATT example_env) \<and> Some ''A'' \<noteq> Some (WATT_HOUR example_env)"
    by (simp add: example_env_def)
  have 4: "\<not> is_numeric (VStr ''n/a'')"
    by (simp add: is_numeric_def)
  have a: "round_2_dec example_env (VInt 7) (Some ''W'') = Inr (VInt 7000)"
    using 1 round_to_dec_watt_and_type_error
      [of "Some ''W''" example_env "VInt 7" None 7]
    by simp
  have b: "round_1_dec example_env (VInt 7) (Some ''Wh'') = Inr (VInt 7000)"
    using 2 round_to_dec_watt_and_type_error
      [of "Some ''Wh''" example_env "VInt 7" None 7]
    by simp
  have c: "round_to_dec example_env (VFloat (Finite (1 / 16))) (Some 2) (Some ''W'')
             = Inr (VInt 62)"
    using 1 round_to_dec_watt_and_type_error
      [of "Some ''W''" example_env "VInt 7" "Some 2" 7 True "Finite (1 / 16)" True 0]
    by (simp add: float_mul_sixteenth round_half_even_tie)
  have d: "round_to_dec example_env (VStr ''n/a'') (Some 2) (Some ''A'') = Inr (VStr ''n/a'')"
    using 3 4 round_to_dec_watt_and_type_error
      [of "Some ''A''" example_env "VStr ''n/a''" "Some 2"]
    by simp
  show ?thesis using a b c d by simp
qed

text \<open>
  NaN is a float, yet with the unit \<open>W\<close> rounding it raises ValueError instead of
  returning a value; the positive infinity raises OverflowError.
\<close>

theorem round_to_dec_nan_counterexample:
  "is_numeric (VFloat NaN)
   \<and> round_to_dec example_env (VFloat NaN) (Some 2) (Some ''W'') = Inl ValueError
   \<and> round_2_dec example_env (VFloat NaN) (Some ''W'') = Inl ValueError
   \<and> round_0_dec example_env (VFloat (Infinite True)) (Some ''Wh'') = Inl OverflowError"
  by (simp add: is_numeric_def round_2_dec_def round_0_dec_def round_to_dec_def py_mul_def
      py_round_def float_mul_def float_round_def example_env_def)

section \<open>Updating the state\<close>

lemma startswith_hd: "startswith key (c # p) \<Longrightarrow> key \<noteq> [] \<and> hd key = c"
  by (cases key) (simp_all add: startswith_def)

lemma startswith_hd2:
  "startswith key (c # c' # p) \<Longrightarrow> tl key \<noteq> [] \<and> hd (tl key) = c'"
  by (cases key; cases "tl key") (auto simp: startswith_def)

lemma state_not_config: "startswith key ''state'' \<Longrightarrow> \<not> startswith key ''config''"
  using startswith_hd [of key "CHR ''s''" "''tate''"]
    startswith_hd [of key "CHR ''c''" "''onfig''"]
  by auto

lemma state_not_schedule: "startswith key ''state'' \<Longrightarrow> \<not> startswith key ''schedule''"
  using startswith_hd2 [of key "CHR ''s''" "CHR ''t''" "''ate''"]
    startswith_hd2 [of key "CHR ''s''" "CHR ''c''" "''hedule''"]
  by auto

lemma state_not_weekly: "startswith key ''state'' \<Longrightarrow> \<not> startswith key ''weekly_schedule''"
  using startswith_hd [of key "CHR ''s''" "''tate''"]
    startswith_hd [of key "CHR ''w''" "''eekly_schedule''"]
  by auto

lemma config_not_schedule: "startswith key ''config'' \<Longrightarrow> \<not> startswith key ''schedule''"
  using startswith_hd [of key "CHR ''c''" "''onfig''"]
    startswith_hd [of key "CHR ''s''" "''chedule''"]
  by auto

lemma config_not_weekly: "startswith key ''config'' \<Longrightarrow> \<not> startswith key ''weekly_schedule''"
  using startswith_hd [of key "CHR ''c''" "''onfig''"]
    startswith_hd [of key "CHR ''w''" "''eekly_schedule''"]
  by auto

lemma schedule_not_weekly:
  "startswith key ''schedule'' \<Longrightarrow> \<not> startswith key ''weekly_schedule''"
  using startswith_hd [of key "CHR ''s''" "''chedule''"]
    startswith_hd [of key "CHR ''w''" "''eekly_schedule''"]
  by auto

lemma then_step_assign:
  "then_step (assign r s) (\<lambda>s. (s, None)) = assign r s"
  by (simp add: then_step_def assign_def split: sum.splits)

lemma then_step_None: "then_step (s, None) g = g s"
  by (simp add: then_step_def)

lemma call_state_func_arg:
  "call_state_func f key d s =
     (case state_func_arg d key of None \<Rightarrow> (s, None) | Some b \<Rightarrow> assign (f b) s)"
proof -
  consider (st) "startswith key ''state''"
    | (co) "\<not> startswith key ''state''" "startswith key ''config''"
    | (sc) "\<not> startswith key ''state''" "\<not> startswith key ''config''"
        "startswith key ''schedule''"
    | (we) "\<not> startswith key ''state''" "\<not> startswith key ''config''"
        "\<not> startswith key ''schedule''" "startswith key ''weekly_schedule''"
    | (no) "\<not> startswith key ''state''" "\<not> startswith key ''config''"
        "\<not> startswith key ''schedule''" "\<not> startswith key ''weekly_schedule''"
    by blast
  then show ?thesis
  proof cases
    case st
    then show ?thesis
      using state_not_config [OF st] state_not_schedule [OF st] state_not_weekly [OF st]
      by (simp add: call_state_func_def state_func_arg_def then_step_assign)
  next
    case co
    then show ?thesis
      using config_not_schedule [OF co(2)] config_not_weekly [OF co(2)]
      by (simp add: call_state_func_def state_func_arg_def then_step_assign then_step_None)
  next
    case sc
    then show ?thesis
      using schedule_not_weekly [OF sc(3)]
      by (simp add: call_state_func_def state_func_arg_def then_step_assign then_step_None)
  next
    case we
    then show ?thesis
      by (simp add: call_state_func_def state_func_arg_def then_step_None)
  next
    case no
    then show ?thesis
      by (simp add: call_state_func_def state_func_arg_def then_step_None)
  qed
qed

lemma update_handler_never_swallowed:
  "update_handler key exc \<noteq> Inl AttributeError
   \<and> update_handler key exc \<noteq> Inl KeyError
   \<and> update_handler key exc \<noteq> Inl TypeError"
  by (simp add: update_handler_def split: option.splits py_error.splits)

lemma update_handler_swallowed:
  "swallowed err \<Longrightarrow> update_handler key (Some err) = Inr ()"
  by (auto simp: update_handler_def swallowed_def)

lemma async_update_result:
  "snd (snd (async_update E e)) = update_handler (state_key e) (snd (snd (update_body E e)))"
  by (simp add: async_update_def split: prod.splits)

lemma update_body_lookup_raises:
  assumes "snd (get_value_from_key E (data e) (state_key e)) = Inl err"
  shows "snd (update_body E e) = (VNone, Some err)"
proof -
  obtain lg where "get_value_from_key E (data e) (state_key e) = (lg, Inl err)"
    using assms by (cases "get_value_from_key E (data e) (state_key e)") simp
  then show ?thesis
    by (simp add: update_body_def assign_def then_step_def)
qed

lemma update_body_lookup_returns:
  assumes "snd (get_value_from_key E (data e) (state_key e)) = Inr v"
  shows "snd (update_body E e) =
           then_step
             (case state_func e of
                None \<Rightarrow> (if v = VStr '''' then VNone else v, None)
              | Some f \<Rightarrow>
                  (case state_func_arg (data e) (state_key e) of
                     None \<Rightarrow> (if v = VStr '''' then VNone else v, None)
                   | Some b \<Rightarrow> assign (f b) (if v = VStr '''' then VNone else v)))
             (\<lambda>s. case convert_units_func e of
                    None \<Rightarrow> (s, None)
                  | Some c \<Rightarrow> assign (c s (units e)) s)"
proof -
  obtain lg where "get_value_from_key E (data e) (state_key e) = (lg, Inr v)"
    using assms by (cases "get_value_from_key E (data e) (state_key e)") simp
  then show ?thesis
    by (simp add: update_body_def assign_def then_step_None call_state_func_arg
        split: option.splits)
qed

lemma update_body_state_func_raises:
  assumes "snd (get_value_from_key E (data e) (state_key e)) = Inr v"
    and "state_func e = Some f"
    and "state_func_arg (data e) (state_key e) = Some b"
    and "f b = Inl err"
  shows "snd (update_body E e) = (if v = VStr '''' then VNone else v, Some err)"
  using assms(2-4)
  by (simp add: update_body_lookup_returns [OF assms(1)] assign_def then_step_def)

lemma update_body_convert_raises_plain:
  assumes "snd (get_value_from_key E (data e) (state_key e)) = Inr v"
    and "state_func e = None \<or> state_func_arg (data e) (state_key e) = None"
    and "convert_units_func e = Some c"
    and "c (if v = VStr '''' then VNone else v) (units e) = Inl err"
  shows "snd (update_body E e) = (if v = VStr '''' then VNone else v, Some err)"
  using assms(2-4)
  by (auto simp: update_body_lookup_returns [OF assms(1)] assign_def then_step_def
      split: option.splits)

lemma update_body_convert_raises_func:
  assumes "snd (get_value_from_key E (data e) (state_key e)) = Inr v"
    and "state_func e = Some f"
    and "state_func_arg (data e) (state_key e) = Some b"
    and "f b = Inr r"
    and "convert_units_func e = Some c"
    and "c r (units e) = Inl err"
  shows "snd (update_body E e) = (r, Some err)"
  using assms(2-6)
  by (simp add: update_body_lookup_returns [OF assms(1)] assign_def then_step_def)

lemma async_update_swallowed:
  assumes "snd (update_body E e) = (s, Some err)" and "swallowed err"
  shows "snd (async_update E e) = (e\<lparr>entity_state := s\<rparr>, Inr ())"
proof -
  obtain lg where "update_body E e = (lg, s, Some err)"
    using assms(1) by (cases "update_body E e") simp
  then show ?thesis
    using assms(2) by (simp add: async_update_def update_handler_swallowed)
qed

text \<open>
  C4, as the code has it. \<open>async_update\<close> never raises AttributeError, KeyError or
  TypeError. Whenever one of them is raised inside, the call returns, and the stored
  state is what was last assigned:
  \<^item> \<open>None\<close> when the lookup itself raises;
  \<^item> the value looked up (the empty string replaced by \<open>None\<close>) when
    \<open>state_func\<close> raises;
  \<^item> the value looked up (the empty string replaced by \<open>None\<close>) when
    \<open>convert_units_func\<close> raises and \<open>state_func\<close> was not called, there being
    none or the key starting with none of the four prefixes;
  \<^item> the result of \<open>state_func\<close> when \<open>convert_units_func\<close> raises after
    \<open>state_func\<close> returned.
\<close>

theorem async_update_swallows:
  "snd (snd (async_update E e)) \<noteq> Inl AttributeError
   \<and> snd (snd (async_update E e)) \<noteq> Inl KeyError
   \<and> snd (snd (async_update E e)) \<noteq> Inl TypeError
   \<and> (swallowed err \<and> snd (get_value_from_key E (data e) (state_key e)) = Inl err \<longrightarrow>
        snd (async_update E e) = (e\<lparr>entity_state := VNone\<rparr>, Inr ()))
   \<and> (swallowed err \<and> snd (get_value_from_key E (data e) (state_key e)) = Inr v
        \<and> state_func e = Some f \<and> state_func_arg (data e) (state_key e) = Some b
        \<and> f b = Inl err \<longrightarrow>
        snd (async_update E e)
          = (e\<lparr>entity_state := (if v = VStr '''' then VNone else v)\<rparr>, Inr ()))
   \<and> (swallowed err \<and> snd (get_value_from_key E (data e) (state_key e)) = Inr v
        \<and> (state_func e = None \<or> state_func_arg (data e) (state_key e) = None)
        \<and> convert_units_func e = Some c
        \<and> c (if v = VStr '''' then VNone else v) (units e) = Inl err \<longrightarrow>
        snd (async_update E e)
          = (e\<lparr>entity_state := (if v = VStr '''' then VNone else v)\<rparr>, Inr ()))
   \<and> (swallowed err \<and> snd (get_value_from_key E (data e) (state_key e)) = Inr v
        \<and> state_func e = Some f \<and> state_func_arg (data e) (state_key e) = Some b
        \<and> f b = Inr r \<and> convert_units_func e = Some c \<and> c r (units e) = Inl err \<longrightarrow>
        snd (async_update E e) = (e\<lparr>entity_state := r\<rparr>, Inr ()))"
proof (intro conjI impI)
  show "snd (snd (async_update E e)) \<noteq> Inl AttributeError"
    and "snd (snd (async_update E e)) \<noteq> Inl KeyError"
    and "snd (snd (async_update E e)) \<noteq> Inl TypeError"
    using update_handler_never_swallowed [of "state_key e" "snd (snd (update_body E e))"]
    by (simp_all add: async_update_result)
next
  assume "swallowed err \<and> snd (get_value_from_key E (data e) (state_key e)) = Inl err"
  then show "snd (async_update E e) = (e\<lparr>entity_state := VNone\<rparr>, Inr ())"
    using update_body_lookup_raises async_update_swallowed by blast
next
  assume a: "swallowed err \<and> snd (get_value_from_key E (data e) (state_key e)) = Inr v
        \<and> state_func e = Some f \<and> state_func_arg (data e) (state_key e) = Some b
        \<and> f b = Inl err"
  then have "snd (update_body E e) = (if v = VStr '''' then VNone else v, Some err)"
    using update_body_state_func_raises [of E e v f b err] by blast
  then show "snd (async_update E e)
          = (e\<lparr>entity_state := (if v = VStr '''' then VNone else v)\<rparr>, Inr ())"
    using a async_update_swallowed by blast
next
  assume a: "swallowed err \<and> snd (get_value_from_key E (data e) (state_key e)) = Inr v
        \<and> (state_func e = None \<or> state_func_arg (data e) (state_key e) = None)
        \<and> convert_units_func e = Some c
        \<and> c (if v = VStr '''' then VNone else v) (units e) = Inl err"
  then have "snd (update_body E e) = (if v = VStr '''' then VNone else v, Some err)"
    using update_body_convert_raises_plain [of E e v c err] by blast
  then show "snd (async_update E e)
          = (e\<lparr>entity_state := (if v = VStr '''' then VNone else v)\<rparr>, Inr ())"
    using a async_update_swallowed by blast
next
  assume a: "swallowed err \<and> snd (get_value_from_key E (data e) (state_key e)) = Inr v
        \<and> state_func e = Some f \<and> state_func_arg (data e) (state_key e) = Some b
        \<and> f b = Inr r \<and> convert_units_func e = Some c \<and> c r (units e) = Inl err"
  then have "snd (update_body E e) = (r, Some err)"
    using update_body_convert_raises_func [of E e v f b r c err] by blast
  then show "snd (async_update E e) = (e\<lparr>entity_state := r\<rparr>, Inr ())"
    using a async_update_swallowed by blast
qed

lemma get_circuit_example:
  "get_value_from_key example_env example_data ''circuit.ratedCurrent'' = ([], Inl TypeError)"
  by (simp add: get_value_from_key_def get_dispatch_def getitem_def example_data_def Let_def)

lemma get_pulse_example:
  "get_value_from_key example_env example_data ''state.latestPulse''
     = ([], Inr (VDatetime (Datetime 660 (Some 60))))"
  by (simp add: get_value_from_key_def get_dispatch_def getitem_def example_data_def
      example_env_def localize_def as_local_fixed_def Let_def)

lemma get_power_example:
  "get_value_from_key example_env example_data ''state.totalPower'' = ([], Inr (VInt 7))"
  by (simp add: get_value_from_key_def get_dispatch_def getitem_def example_data_def
      localize_def Let_def)

lemma round_datetime_example:
  "round_1_dec example_env (VDatetime t) (Some ''W'') = Inl TypeError"
  by (simp add: round_1_dec_def round_to_dec_def py_mul_def example_env_def)

lemma state_func_arg_power:
  "state_func_arg example_data ''state.totalPower'' = Some (state example_data)"
  by (simp add: state_func_arg_def startswith_def)

lemma state_pulse_example:
  "getitem (state example_data) ''latestPulse'' = Inr (VDatetime (Datetime 600 (Some 0)))"
  by (simp add: getitem_def example_data_def)

lemma state_phase_example:
  "getitem (state example_data) ''phaseMode'' = Inl KeyError"
  by (simp add: getitem_def example_data_def)

theorem async_update_swallows_witness:
  "snd (async_update example_env circuit_entity)
     = (circuit_entity\<lparr>entity_state := VNone\<rparr>, Inr ())
   \<and> snd (async_update example_env failing_func_entity)
     = (failing_func_entity\<lparr>entity_state := VInt 7\<rparr>, Inr ())
   \<and> snd (async_update example_env pulse_entity)
     = (pulse_entity\<lparr>entity_state := VDatetime (Datetime 660 (Some 60))\<rparr>, Inr ())
   \<and> snd (async_update example_env func_entity)
     = (func_entity\<lparr>entity_state := VDatetime (Datetime 600 (Some 0))\<rparr>, Inr ())"
proof -
  have sw: "swallowed TypeError" "swallowed KeyError"
    by (simp_all add: swallowed_def)
  have a: "snd (async_update example_env circuit_entity)
             = (circuit_entity\<lparr>entity_state := VNone\<rparr>, Inr ())"
  proof -
    have "snd (get_value_from_key example_env (data circuit_entity) (state_key circuit_entity))
            = Inl TypeError"
      by (simp add: circuit_entity_def get_circuit_example)
    then show ?thesis
      using sw(1) async_update_swallows [of example_env circuit_entity TypeError]
      by blast
  qed
  have b: "snd (async_update example_env failing_func_entity)
             = (failing_func_entity\<lparr>entity_state := VInt 7\<rparr>, Inr ())"
  proof -
    have 1: "snd (get_value_from_key example_env (data failing_func_entity)
               (state_key failing_func_entity)) = Inr (VInt 7)"
      by (simp add: failing_func_entity_def get_power_example)
    have 2: "state_func failing_func_entity = Some (\<lambda>b. getitem b ''phaseMode'')"
      by (simp add: failing_func_entity_def)
    have 3: "state_func_arg (data failing_func_entity) (state_key failing_func_entity)
               = Some (state example_data)"
      by (simp add: failing_func_entity_def state_func_arg_power)
    have 4: "(\<lambda>b. getitem b ''phaseMode'') (state example_data) = Inl KeyError"
      by (simp add: state_phase_example)
    show ?thesis
      using sw(2) 1 2 3 4
        async_update_swallows [of example_env failing_func_entity KeyError "VInt 7"
          "\<lambda>b. getitem b ''phaseMode''" "state example_data"]
      by simp
  qed
  have c: "snd (async_update example_env pulse_entity)
             = (pulse_entity\<lparr>entity_state := VDatetime (Datetime 660 (Some 60))\<rparr>, Inr ())"
  proof -
    have 1: "snd (get_value_from_key example_env (data pulse_entity) (state_key pulse_entity))
               = Inr (VDatetime (Datetime 660 (Some 60)))"
      by (simp add: pulse_entity_def get_pulse_example)
    have 2: "state_func pulse_entity = None
             \<and> convert_units_func pulse_entity = Some (round_1_dec example_env)"
      by (simp add: pulse_entity_def)
    have 3: "round_1_dec example_env
               (if VDatetime (Datetime 660 (Some 60)) = VStr '''' then VNone
                else VDatetime (Datetime 660 (Some 60)))
               (units pulse_entity) = Inl TypeError"
      by (simp add: pulse_entity_def round_datetime_example)
    show ?thesis
      using sw(1) 1 2 3
        async_update_swallows [of example_env pulse_entity TypeError
          "VDatetime (Datetime 660 (Some 60))" _ _ "round_1_dec example_env"]
      by simp
  qed
  have d: "snd (async_update example_env func_entity)
             = (func_entity\<lparr>entity_state := VDatetime (Datetime 600 (Some 0))\<rparr>, Inr ())"
  proof -
    have 1: "snd (get_value_from_key example_env (data func_entity) (state_key func_entity))
               = Inr (VInt 7)"
      by (simp add: func_entity_def get_power_example)
    have 2: "state_func func_entity = Some (\<lambda>b. getitem b ''latestPulse'')
             \<and> convert_units_func func_entity = Some (round_1_dec example_env)"
      by (simp add: func_entity_def)
    have 3: "state_func_arg (data func_entity) (state_key func_entity)
               = Some (state example_data)"
      by (simp add: func_entity_def state_func_arg_power)
    have 4: "(\<lambda>b. getitem b ''latestPulse'') (state example_data)
               = Inr (VDatetime (Datetime 600 (Some 0)))"
      by (simp add: state_pulse_example)
    have 5: "round_1_dec example_env (VDatetime (Datetime 600 (Some 0))) (units func_entity)
               = Inl TypeError"
      by (simp add: func_entity_def round_datetime_example)
    show ?thesis
      using sw(1) 1 2 3 4 5
        async_update_swallows [of example_env func_entity TypeError "VInt 7"
          "\<lambda>b. getitem b ''latestPulse''" "state example_data"
          "round_1_dec example_env" "VDatetime (Datetime 600 (Some 0))"]
      by simp
  qed
  show ?thesis using a b c d by simp
qed

text \<open>
  The lookup of \<open>state.latestPulse\<close> yields a datetime, \<open>round_1_dec\<close> with the
  unit \<open>W\<close> raises TypeError on it (a datetime does not multiply), the update
  returns, and the stored state is that datetime: neither \<open>None\<close> nor empty.
\<close>

theorem async_update_state_kept_counterexample:
  "snd (get_value_from_key example_env (data pulse_entity) (state_key pulse_entity))
     = Inr (VDatetime (Datetime 660 (Some 60)))
   \<and> round_1_dec example_env (VDatetime (Datetime 660 (Some 60))) (units pulse_entity)
       = Inl TypeError
   \<and> snd (snd (async_update example_env pulse_entity)) = Inr ()
   \<and> entity_state (fst (snd (async_update example_env pulse_entity)))
       = VDatetime (Datetime 660 (Some 60))
   \<and> entity_state (fst (snd (async_update example_env pulse_entity))) \<noteq> VNone
   \<and> entity_state (fst (snd (async_update example_env pulse_entity))) \<noteq> VStr ''''"
  by (simp add: async_update_def update_body_def update_handler_def assign_def then_step_def
      pulse_entity_def get_pulse_example round_datetime_example)

end
